theory Spec2Isabelle
  imports Main "HOL-Library.Sublist"
begin

section \<open>Python values\<close>

text \<open>
  The module is duck-typed: every parameter is annotated \<^verbatim>\<open>Any\<close> and the code probes
  its arguments with \<^verbatim>\<open>getattr\<close>, \<^verbatim>\<open>callable\<close>, \<^verbatim>\<open>isinstance\<close> and \<^verbatim>\<open>hasattr\<close>.
  The embedding therefore works on one type of Python values. An exception is a value
  of \<open>exn\<close>, and a computation that may raise returns \<open>exn + 'a\<close> with \<open>Inl\<close> the
  exception.

  \<^item> \<open>PSet xs\<close> is a \<^verbatim>\<open>set\<close> whose iteration order is \<open>xs\<close>.
  \<^item> \<open>PAll\<close> is the one instance \<^verbatim>\<open>All\<close> of \<^verbatim>\<open>_AllPermissions\<close>.
  \<^item> \<open>PFun r\<close> is a callable of no arguments, given by the outcome \<open>r\<close> of calling
    it: the value it returns or the exception it raises.
  \<^item> \<open>PObj i attrs\<close> is an instance of a plain user class: \<open>i\<close> is its identity
    (instances compare and hash by identity) and \<open>attrs\<close> its instance attributes.
    Classes that define special methods of their own (\<^verbatim>\<open>__iter__\<close>, \<^verbatim>\<open>__eq__\<close>,
    \<^verbatim>\<open>__call__\<close>, properties) are not covered.
\<close>

datatype exn =
    TypeError
  | ValueError
  | HTTPException nat string "(string \<times> string) list"
  | UserException string

datatype pyval =
    PNone
  | PInt int
  | PStr string
  | PAll
  | PTuple "pyval list"
  | PList "pyval list"
  | PSet "pyval list"
  | PFun "exn + pyval"
  | PObj nat "(string \<times> pyval) list"

text \<open>\<^verbatim>\<open>callable(v)\<close> and the call \<^verbatim>\<open>v()\<close>.\<close>

fun callable :: "pyval \<Rightarrow> bool" where
  "callable (PFun r) = True"
| "callable v = False"

fun call :: "pyval \<Rightarrow> exn + pyval" where
  "call (PFun r) = r"
| "call v = Inl TypeError"

text \<open>
  \<^verbatim>\<open>getattr(v, name, default)\<close>, for the two names the module asks for
  (\<^verbatim>\<open>principals\<close> and \<^verbatim>\<open>__acl__\<close>): no built-in value has them.
\<close>

fun py_getattr :: "pyval \<Rightarrow> string \<Rightarrow> pyval \<Rightarrow> pyval" where
  "py_getattr (PObj i attrs) name dflt =
     (case map_of attrs name of Some v \<Rightarrow> v | None \<Rightarrow> dflt)"
| "py_getattr v name dflt = dflt"

text \<open>\<^verbatim>\<open>isinstance(v, str)\<close>.\<close>

fun isinstance_str :: "pyval \<Rightarrow> bool" where
  "isinstance_str (PStr s) = True"
| "isinstance_str v = False"

text \<open>
  \<^verbatim>\<open>hasattr(v, "__iter__")\<close>. An instance has the attribute when it is among its
  instance attributes.
\<close>

fun hasattr_iter :: "pyval \<Rightarrow> bool" where
  "hasattr_iter (PStr s) = True"
| "hasattr_iter (PTuple xs) = True"
| "hasattr_iter (PList xs) = True"
| "hasattr_iter (PSet xs) = True"
| "hasattr_iter (PObj i attrs) = (map_of attrs ''__iter__'' \<noteq> None)"
| "hasattr_iter v = False"

text \<open>Truth value testing, as in \<^verbatim>\<open>not user_principals\<close>.\<close>

fun truthy :: "pyval \<Rightarrow> bool" where
  "truthy PNone = False"
| "truthy (PInt n) = (n \<noteq> 0)"
| "truthy (PStr s) = (s \<noteq> [])"
| "truthy (PTuple xs) = (xs \<noteq> [])"
| "truthy (PList xs) = (xs \<noteq> [])"
| "truthy (PSet xs) = (xs \<noteq> [])"
| "truthy v = True"

text \<open>
  Iteration, as a \<^verbatim>\<open>for\<close> loop or a set constructor does it: the items in order,
  or \<^verbatim>\<open>TypeError\<close> for a value that is not iterable. The interpreter looks
  \<^verbatim>\<open>__iter__\<close> up on the class, so an instance is not iterable whatever its
  instance attributes are. A string yields its characters.
\<close>

fun iter_items :: "pyval \<Rightarrow> exn + pyval list" where
  "iter_items (PTuple xs) = Inr xs"
| "iter_items (PList xs) = Inr xs"
| "iter_items (PSet xs) = Inr xs"
| "iter_items (PStr s) = Inr (map (\<lambda>c. PStr [c]) s)"
| "iter_items v = Inl TypeError"

text \<open>Lists and sets are unhashable, and so is a tuple with an unhashable item.\<close>

fun hashable :: "pyval \<Rightarrow> bool" where
  "hashable (PList xs) = False"
| "hashable (PSet xs) = False"
| "hashable (PTuple xs) = list_all hashable xs"
| "hashable v = True"

fun is_set :: "pyval \<Rightarrow> bool" where
  "is_set (PSet xs) = True"
| "is_set v = False"

text \<open>
  \<^verbatim>\<open>x in s\<close> for a set \<open>s\<close>: the key is hashed first. Where the key is itself a
  set, the interpreter retries with \<^verbatim>\<open>frozenset(x)\<close>; there are no frozensets among
  the values here, so that lookup finds nothing.
\<close>

definition set_contains :: "pyval set \<Rightarrow> pyval \<Rightarrow> exn + bool" where
  "set_contains s x =
     (if hashable x then Inr (x \<in> s)
      else if is_set x then Inr False
      else Inl TypeError)"

text \<open>
  \<^verbatim>\<open>x in c\<close>: a set hashes the key, a tuple or list compares item by item, the
  sentinel \<^verbatim>\<open>All\<close> answers \<^verbatim>\<open>True\<close> to everything (\<^verbatim>\<open>_AllPermissions.__contains__\<close>),
  a string tests for a substring, and every other value is no container.
\<close>

fun py_in :: "pyval \<Rightarrow> pyval \<Rightarrow> exn + bool" where
  "py_in x (PSet ys) = set_contains (set ys) x"
| "py_in x (PTuple ys) = Inr (x \<in> set ys)"
| "py_in x (PList ys) = Inr (x \<in> set ys)"
| "py_in x PAll = Inr True"
| "py_in x (PStr s) = (case x of PStr t \<Rightarrow> Inr (sublist t s) | _ \<Rightarrow> Inl TypeError)"
| "py_in x c = Inl TypeError"

text \<open>
  \<^verbatim>\<open>s.union(c)\<close> for a set \<open>s\<close>: \<open>c\<close> is iterated and each item hashed.
\<close>

definition set_union :: "pyval set \<Rightarrow> pyval \<Rightarrow> exn + pyval set" where
  "set_union s c =
     (case iter_items c of
        Inl e \<Rightarrow> Inl e
      | Inr xs \<Rightarrow> if list_all hashable xs then Inr (s \<union> set xs) else Inl TypeError)"

text \<open>
  Unpacking into three targets, as in \<^verbatim>\<open>for action, principal, permissions in acl\<close>:
  \<^verbatim>\<open>TypeError\<close> when the item is not iterable, \<^verbatim>\<open>ValueError\<close> when it does not
  have exactly three items.
\<close>

definition unpack3 :: "pyval \<Rightarrow> exn + (pyval \<times> pyval \<times> pyval)" where
  "unpack3 item =
     (case iter_items item of
        Inl e \<Rightarrow> Inl e
      | Inr xs \<Rightarrow> (case xs of [a, b, c] \<Rightarrow> Inr (a, b, c) | _ \<Rightarrow> Inl ValueError))"

section \<open>The module\<close>

subsection \<open>Constants\<close>

definition Allow :: pyval where "Allow = PStr ''Allow''"
definition Deny :: pyval where "Deny = PStr ''Deny''"
definition Everyone :: pyval where "Everyone = PStr ''system:everyone''"
definition Authenticated :: pyval where "Authenticated = PStr ''system:authenticated''"
definition All :: pyval where "All = PAll"
definition DENY_ALL :: pyval where "DENY_ALL = PTuple [Deny, Everyone, All]"
definition ALOW_ALL :: pyval where "ALOW_ALL = PTuple [Allow, Everyone, All]"

text \<open>
  \<^verbatim>\<open>str(p)\<close>. A string is its own text and \<^verbatim>\<open>_AllPermissions.__str__\<close> gives
  \<^verbatim>\<open>"permissions:*"\<close>. For every other value the text is the built-in one (for an
  instance it holds a memory address), which is the parameter \<open>builtin_str\<close>.
\<close>

fun py_str :: "(pyval \<Rightarrow> string) \<Rightarrow> pyval \<Rightarrow> string" where
  "py_str builtin_str (PStr s) = s"
| "py_str builtin_str PAll = ''permissions:*''"
| "py_str builtin_str v = builtin_str v"

text \<open>The default exception and the default result class.\<close>

definition permission_exception :: exn where
  "permission_exception =
     HTTPException 403 ''Insufficient permissions'' [(''WWW-Authenticate'', ''Bearer'')]"

datatype grant = Grant (grant_user: pyval) (grant_resource: pyval)

subsection \<open>Utility functions\<close>

definition is_like_list :: "pyval \<Rightarrow> bool" where
  "is_like_list something =
     (if isinstance_str something then False else hasattr_iter something)"

definition normalize_principals :: "pyval \<Rightarrow> exn + pyval set" where
  "normalize_principals user =
     (let user_principals = py_getattr user ''principals'' (PList []) in
      case (if callable user_principals then call user_principals
            else Inr user_principals) of
        Inl e \<Rightarrow> Inl e
      | Inr user_principals \<Rightarrow>
          if \<not> truthy user_principals then Inr {Everyone}
          else set_union {Everyone, Authenticated} user_principals)"

definition normalize_acl :: "pyval \<Rightarrow> exn + pyval" where
  "normalize_acl resource =
     (let acl = py_getattr resource ''__acl__'' PNone in
      if callable acl then call acl
      else if acl \<noteq> PNone then Inr acl
      else if is_like_list resource then Inr resource
      else Inr (PList []))"

subsection \<open>The decision\<close>

text \<open>
  The loop of \<^verbatim>\<open>has_permission\<close> over the items of the ACL. It returns at the
  first entry that matches, so a later entry is neither unpacked nor tested.
\<close>

fun has_permission_loop :: "pyval set \<Rightarrow> pyval \<Rightarrow> pyval list \<Rightarrow> exn + bool" where
  "has_permission_loop user_principals requested_permission [] = Inr False"
| "has_permission_loop user_principals requested_permission (item # rest) =
     (case unpack3 item of
        Inl e \<Rightarrow> Inl e
      | Inr (action, princ, permissions) \<Rightarrow>
          (let permissions =
                 (if isinstance_str permissions then PSet [permissions] else permissions)
           in case py_in requested_permission permissions of
                Inl e \<Rightarrow> Inl e
              | Inr False \<Rightarrow>
                  has_permission_loop user_principals requested_permission rest
              | Inr True \<Rightarrow>
                  (case set_contains user_principals princ of
                     Inl e \<Rightarrow> Inl e
                   | Inr True \<Rightarrow> Inr (action = Allow)
                   | Inr False \<Rightarrow>
                       has_permission_loop user_principals requested_permission rest)))"

definition has_permission :: "pyval \<Rightarrow> pyval \<Rightarrow> pyval \<Rightarrow> exn + bool" where
  "has_permission user requested_permission resource =
     (case normalize_principals user of
        Inl e \<Rightarrow> Inl e
      | Inr user_principals \<Rightarrow>
          (case normalize_acl resource of
             Inl e \<Rightarrow> Inl e
           | Inr acl \<Rightarrow>
               (case iter_items acl of
                  Inl e \<Rightarrow> Inl e
                | Inr items \<Rightarrow>
                    has_permission_loop user_principals requested_permission items)))"

subsection \<open>Listing the permissions\<close>

text \<open>
  The three lazy stages of \<^verbatim>\<open>list_permissions\<close>, consumed by \<^verbatim>\<open>set(...)\<close> one
  ACL item at a time: the item is unpacked, its permissions field is wrapped in a
  one-element set unless it is list-like, its items are chained, and each is hashed
  as it enters the set. The result lists the items in the order they are added.
\<close>

fun available_permissions :: "pyval list \<Rightarrow> exn + pyval list" where
  "available_permissions [] = Inr []"
| "available_permissions (item # rest) =
     (case unpack3 item of
        Inl e \<Rightarrow> Inl e
      | Inr (action, princ, p) \<Rightarrow>
          (case (if \<not> is_like_list p then Inr [p] else iter_items p) of
             Inl e \<Rightarrow> Inl e
           | Inr ps \<Rightarrow>
               if \<not> list_all hashable ps then Inl TypeError
               else (case available_permissions rest of
                       Inl e \<Rightarrow> Inl e
                     | Inr qs \<Rightarrow> Inr (ps @ qs))))"

text \<open>
  The dict comprehension: the permissions are visited in the iteration order of the
  set, and a key that comes again overwrites the value stored before.
\<close>

fun dict_comprehension ::
  "(pyval \<Rightarrow> string) \<Rightarrow> pyval \<Rightarrow> pyval \<Rightarrow> pyval list \<Rightarrow> (string \<rightharpoonup> bool) \<Rightarrow>
   exn + (string \<rightharpoonup> bool)" where
  "dict_comprehension builtin_str user acl [] d = Inr d"
| "dict_comprehension builtin_str user acl (p # ps) d =
     (case has_permission user p acl of
        Inl e \<Rightarrow> Inl e
      | Inr b \<Rightarrow> dict_comprehension builtin_str user acl ps (d(py_str builtin_str p \<mapsto> b)))"

text \<open>
  The language does not fix the order in which a set is iterated. It is the parameter
  \<open>set_order\<close>: from the items in the order they were added to the set, to the
  items in the order the set yields them. \<open>is_set_order\<close> says what every such order
  satisfies: the same items, each once.
\<close>

definition is_set_order :: "(pyval list \<Rightarrow> pyval list) \<Rightarrow> bool" where
  "is_set_order set_order =
     (\<forall>xs. set (set_order xs) = set xs \<and> distinct (set_order xs))"

definition list_permissions ::
  "(pyval list \<Rightarrow> pyval list) \<Rightarrow> (pyval \<Rightarrow> string) \<Rightarrow> pyval \<Rightarrow> pyval \<Rightarrow>
   exn + (string \<rightharpoonup> bool)" where
  "list_permissions set_order builtin_str user resource =
     (case normalize_acl resource of
        Inl e \<Rightarrow> Inl e
      | Inr acl \<Rightarrow>
          (case iter_items acl of
             Inl e \<Rightarrow> Inl e
           | Inr items \<Rightarrow>
               (case available_permissions items of
                  Inl e \<Rightarrow> Inl e
                | Inr ps \<Rightarrow>
                    dict_comprehension builtin_str user acl (set_order ps) Map.empty)))"

subsection \<open>The dependency\<close>

text \<open>
  \<^verbatim>\<open>permission_dependency\<close>, the closure that \<^verbatim>\<open>permission_dependency_factory\<close>
  returns, applied to the resource and the user that the framework has resolved.
  \<open>grant_class\<close>, \<open>exc\<close> (the configured \<^verbatim>\<open>permission_exception\<close>) and
  \<open>permission\<close> are the variables it closes over.
\<close>

definition permission_dependency ::
  "(pyval \<Rightarrow> pyval \<Rightarrow> 'g) \<Rightarrow> exn \<Rightarrow> pyval \<Rightarrow> pyval \<Rightarrow> pyval \<Rightarrow> exn + 'g" where
  "permission_dependency grant_class exc permission resource user =
     (case has_permission user permission resource of
        Inl e \<Rightarrow> Inl e
      | Inr granted \<Rightarrow>
          if granted then Inr (grant_class user resource) else Inl exc)"

section \<open>Vocabulary of the specification\<close>

text \<open>
  The definitions of this section follow the words of the specification, not the
  code; the theorems below compare them with the code.
\<close>

text \<open>
  \<^verbatim>\<open>hasattr(v, name)\<close> for the names \<^verbatim>\<open>principals\<close> and \<^verbatim>\<open>__acl__\<close>: "the user
  exposes a principals collection", "the resource exposes an ACL accessor".
\<close>

fun py_hasattr :: "pyval \<Rightarrow> string \<Rightarrow> bool" where
  "py_hasattr (PObj i attrs) name = (map_of attrs name \<noteq> None)"
| "py_hasattr v name = False"

text \<open>
  An ACL entry is a triple of action, principal and permissions. The data model
  takes the principal to be an identity tag (here: any hashable value) and the
  permissions to be one permission name, a collection of permission names, or the
  sentinel.
\<close>

type_synonym entry = "pyval \<times> pyval \<times> pyval"

fun is_name :: "pyval \<Rightarrow> bool" where
  "is_name (PStr s) = True"
| "is_name v = False"

fun is_permissions :: "pyval \<Rightarrow> bool" where
  "is_permissions (PStr s) = True"
| "is_permissions PAll = True"
| "is_permissions (PTuple xs) = list_all is_name xs"
| "is_permissions (PList xs) = list_all is_name xs"
| "is_permissions (PSet xs) = list_all is_name xs"
| "is_permissions v = False"

fun wf_entry :: "entry \<Rightarrow> bool" where
  "wf_entry (action, princ, permissions) = (hashable princ \<and> is_permissions permissions)"

text \<open>
  \<open>acl_of items es\<close>: the items that iterating an ACL yields unpack, one by one,
  into the entries \<open>es\<close>, and every entry is as the data model has it.
\<close>

definition acl_of :: "pyval list \<Rightarrow> entry list \<Rightarrow> bool" where
  "acl_of items es =
     (list_all2 (\<lambda>item e. unpack3 item = Inr e) items es \<and> list_all wf_entry es)"

text \<open>
  "The permissions contain the requested permission": a single name contains
  itself, a collection contains its members, the sentinel contains everything.
\<close>

fun permissions_contain :: "pyval \<Rightarrow> pyval \<Rightarrow> bool" where
  "permissions_contain (PStr s) p = (p = PStr s)"
| "permissions_contain PAll p = True"
| "permissions_contain (PTuple xs) p = (p \<in> set xs)"
| "permissions_contain (PList xs) p = (p \<in> set xs)"
| "permissions_contain (PSet xs) p = (p \<in> set xs)"
| "permissions_contain v p = False"

text \<open>
  "The first entry, in original order, whose permissions contain the requested
  permission and whose principal is a member of the normalized principal set", and
  the decision it stands for: its action is \<^verbatim>\<open>Allow\<close>; no such entry denies.
\<close>

definition first_match :: "pyval set \<Rightarrow> pyval \<Rightarrow> entry list \<Rightarrow> entry option" where
  "first_match user_principals p es =
     find (\<lambda>(action, princ, permissions).
             permissions_contain permissions p \<and> princ \<in> user_principals) es"

definition first_match_allows :: "pyval set \<Rightarrow> pyval \<Rightarrow> entry list \<Rightarrow> bool" where
  "first_match_allows user_principals p es =
     (case first_match user_principals p es of
        None \<Rightarrow> False
      | Some (action, princ, permissions) \<Rightarrow> action = Allow)"

text \<open>
  The permission names that a permissions field spells out (a single name, or the
  members of a collection), and whether a field is the sentinel.
\<close>

fun name_of :: "pyval \<Rightarrow> string list" where
  "name_of (PStr s) = [s]"
| "name_of v = []"

fun spelled_names :: "pyval \<Rightarrow> string list" where
  "spelled_names (PStr s) = [s]"
| "spelled_names (PTuple xs) = concat (map name_of xs)"
| "spelled_names (PList xs) = concat (map name_of xs)"
| "spelled_names (PSet xs) = concat (map name_of xs)"
| "spelled_names v = []"

definition acl_names :: "entry list \<Rightarrow> string set" where
  "acl_names es = set (concat (map (\<lambda>(action, princ, permissions). spelled_names permissions) es))"

definition has_sentinel :: "entry list \<Rightarrow> bool" where
  "has_sentinel es = list_ex (\<lambda>(action, princ, permissions). permissions = PAll) es"


text \<open>
  The permissions that one entry contributes to \<^verbatim>\<open>available_permissions\<close>: the items
  of a collection, and a single name or the sentinel as it is.
\<close>

fun contributed :: "pyval \<Rightarrow> pyval list" where
  "contributed (PTuple xs) = xs"
| "contributed (PList xs) = xs"
| "contributed (PSet xs) = xs"
| "contributed v = [v]"

text \<open>
  The names that the specification has \<^verbatim>\<open>enumerate_permissions\<close> report: the names
  spelled out in the ACL and, where an entry has the sentinel, the sentinel's text.
\<close>

definition listed_names :: "entry list \<Rightarrow> string set" where
  "listed_names es = acl_names es \<union> (if has_sentinel es then {''permissions:*''} else {})"

section \<open>Users and resources of the examples\<close>

definition admin_user :: pyval where
  "admin_user = PObj 1 [(''principals'', PList [PStr ''role:admin''])]"

definition editor_user :: pyval where
  "editor_user = PObj 2 [(''principals'', PFun (Inr (PList [PStr ''role:editor''])))]"

definition anonymous_user :: pyval where
  "anonymous_user = PObj 3 [(''name'', PStr ''guest'')]"

definition editor_acl :: pyval where
  "editor_acl =
     PList [PTuple [Allow, PStr ''role:editor'', PSet [PStr ''view'', PStr ''edit'']],
            PTuple [Deny, Everyone, PStr ''edit'']]"

definition article :: pyval where
  "article = PObj 4 [(''__acl__'', editor_acl)]"

section \<open>Properties\<close>

subsection \<open>Auxiliary facts\<close>

lemma py_getattr_absent: "\<not> py_hasattr v name \<Longrightarrow> py_getattr v name d = d"
  by (cases v) (auto split: option.splits)

lemma iter_items_truthy: "iter_items c = Inr xs \<Longrightarrow> truthy c = (xs \<noteq> [])"
  by (cases c) auto

lemma iter_items_not_callable: "iter_items c = Inr xs \<Longrightarrow> \<not> callable c"
  by (cases c) auto

lemma normalize_principals_Everyone:
  "normalize_principals user = Inr P \<Longrightarrow> Everyone \<in> P"
  by (auto simp: normalize_principals_def set_union_def Let_def split: if_splits sum.splits)

lemma normalize_principals_admin:
  "normalize_principals admin_user = Inr {Everyone, Authenticated, PStr ''role:admin''}"
  by (auto simp: normalize_principals_def admin_user_def set_union_def)

lemma normalize_principals_editor:
  "normalize_principals editor_user = Inr {Everyone, Authenticated, PStr ''role:editor''}"
  by (auto simp: normalize_principals_def editor_user_def set_union_def)

lemma normalize_principals_anonymous:
  "normalize_principals anonymous_user = Inr {Everyone}"
  by (simp add: normalize_principals_def anonymous_user_def)

text \<open>
  The membership test of the loop, after the coercion of a single name to a
  one-element set, is the containment of the specification.
\<close>

lemma py_in_coerced:
  "hashable p \<Longrightarrow> is_permissions pm \<Longrightarrow>
   py_in p (if isinstance_str pm then PSet [pm] else pm) = Inr (permissions_contain pm p)"
  by (cases pm) (auto simp: set_contains_def)

lemma has_permission_loop_first_match:
  assumes "list_all2 (\<lambda>item e. unpack3 item = Inr e) items es"
    and "list_all wf_entry es"
    and "hashable p"
  shows "has_permission_loop P p items = Inr (first_match_allows P p es)"
  using assms
proof (induction items es rule: list_all2_induct)
  case Nil
  then show ?case by (simp add: first_match_allows_def first_match_def)
next
  case (Cons item items e es)
  obtain a pr pm where e: "e = (a, pr, pm)" by (cases e)
  with Cons show ?case
    by (auto simp: py_in_coerced set_contains_def first_match_allows_def first_match_def
        Let_def split: bool.splits)
qed

subsection \<open>The decision is the first match\<close>

text \<open>
  C1. Let the principals of the user normalize to \<open>P\<close> and the resource to an ACL
  whose items unpack into the entries \<open>es\<close>, each with a hashable principal and with
  a name, a collection of names or the sentinel as permissions. Then
  \<^verbatim>\<open>has_permission\<close> returns whether the first entry of \<open>es\<close>, in order, whose
  permissions contain the requested permission and whose principal is in \<open>P\<close> has the
  action \<^verbatim>\<open>Allow\<close>, and \<^verbatim>\<open>False\<close> when there is no such entry. An entry whose
  permissions match and whose principal is not in \<open>P\<close> is not that first entry, so
  the search goes on after it.
\<close>

theorem has_permission_first_match:
  assumes "normalize_principals user = Inr P"
    and "normalize_acl resource = Inr acl"
    and "iter_items acl = Inr items"
    and "acl_of items es"
  shows "has_permission user (PStr p) resource = Inr (first_match_allows P (PStr p) es)"
  using assms
  by (simp add: has_permission_def acl_of_def has_permission_loop_first_match)

theorem has_permission_first_match_witness:
  "has_permission editor_user (PStr ''view'') article = Inr True \<and>
   has_permission editor_user (PStr ''edit'') article = Inr True \<and>
   has_permission anonymous_user (PStr ''edit'') article = Inr False \<and>
   has_permission anonymous_user (PStr ''view'') article = Inr False"
proof -
  note u = normalize_principals_editor and a = normalize_principals_anonymous
  have r: "normalize_acl article = Inr editor_acl"
    by (simp add: normalize_acl_def article_def editor_acl_def)
  have i: "iter_items editor_acl =
      Inr [PTuple [Allow, PStr ''role:editor'', PSet [PStr ''view'', PStr ''edit'']],
           PTuple [Deny, Everyone, PStr ''edit'']]"
    by (simp add: editor_acl_def)
  have e: "acl_of [PTuple [Allow, PStr ''role:editor'', PSet [PStr ''view'', PStr ''edit'']],
           PTuple [Deny, Everyone, PStr ''edit'']]
        [(Allow, PStr ''role:editor'', PSet [PStr ''view'', PStr ''edit'']),
         (Deny, Everyone, PStr ''edit'')]"
    by (simp add: acl_of_def unpack3_def Everyone_def)
  show ?thesis
    using has_permission_first_match [OF u r i e, of "''view''"]
      has_permission_first_match [OF u r i e, of "''edit''"]
      has_permission_first_match [OF a r i e, of "''view''"]
      has_permission_first_match [OF a r i e, of "''edit''"]
    by (simp add: first_match_allows_def first_match_def Allow_def Deny_def Everyone_def
        Authenticated_def)
qed

subsection \<open>The principal normalizer\<close>

text \<open>
  C2. A user without a \<^verbatim>\<open>principals\<close> attribute normalizes to \<open>{Everyone}\<close>, and
  nothing is raised. Where the attribute is a collection \<open>c\<close>, or a callable that
  returns \<open>c\<close>, and iterating \<open>c\<close> gives the hashable items \<open>xs\<close>, the result is
  \<open>{Everyone}\<close> for an empty \<open>c\<close> and the union of \<open>{Everyone, Authenticated}\<close> with
  the set of the items otherwise.
\<close>

theorem normalize_principals_cases:
  "(\<not> py_hasattr user ''principals'' \<longrightarrow> normalize_principals user = Inr {Everyone}) \<and>
   ((py_getattr user ''principals'' (PList []) = c \<or>
     py_getattr user ''principals'' (PList []) = PFun (Inr c)) \<and>
    iter_items c = Inr xs \<and> list_all hashable xs \<longrightarrow>
    normalize_principals user =
      Inr (if xs = [] then {Everyone} else {Everyone, Authenticated} \<union> set xs))"
proof (intro conjI impI)
  assume "\<not> py_hasattr user ''principals''"
  then have "py_getattr user ''principals'' (PList []) = PList []"
    by (rule py_getattr_absent)
  then show "normalize_principals user = Inr {Everyone}"
    by (simp add: normalize_principals_def)
next
  assume h: "(py_getattr user ''principals'' (PList []) = c \<or>
     py_getattr user ''principals'' (PList []) = PFun (Inr c)) \<and>
    iter_items c = Inr xs \<and> list_all hashable xs"
  then have t: "truthy c = (xs \<noteq> [])" and nc: "\<not> callable c"
    by (simp_all add: iter_items_truthy iter_items_not_callable)
  from h nc t show "normalize_principals user =
      Inr (if xs = [] then {Everyone} else {Everyone, Authenticated} \<union> set xs)"
    by (auto simp: normalize_principals_def set_union_def)
qed

theorem normalize_principals_cases_witness:
  "normalize_principals (PInt 7) = Inr {Everyone} \<and>
   normalize_principals anonymous_user = Inr {Everyone} \<and>
   normalize_principals (PObj 5 [(''principals'', PFun (Inr (PTuple [])))]) = Inr {Everyone} \<and>
   normalize_principals admin_user = Inr {Everyone, Authenticated, PStr ''role:admin''} \<and>
   normalize_principals
     (PObj 6 [(''principals'', PFun (Inr (PList [Authenticated, PStr ''a'', PStr ''a''])))])
     = Inr {Everyone, Authenticated, PStr ''a''}"
  using normalize_principals_cases [of "PInt 7" PNone "[]"]
    normalize_principals_cases [of anonymous_user PNone "[]"]
    normalize_principals_cases
      [of "PObj 5 [(''principals'', PFun (Inr (PTuple [])))]" "PTuple []" "[]"]
    normalize_principals_cases
      [of admin_user "PList [PStr ''role:admin'']" "[PStr ''role:admin'']"]
    normalize_principals_cases
      [of "PObj 6 [(''principals'', PFun (Inr (PList [Authenticated, PStr ''a'', PStr ''a''])))]"
       "PList [Authenticated, PStr ''a'', PStr ''a'']" "[Authenticated, PStr ''a'', PStr ''a'']"]
  by (simp add: anonymous_user_def admin_user_def Authenticated_def insert_commute)

subsection \<open>The ACL normalizer\<close>






text \<open>
  C10. When the normalized ACL of a resource is list-like and has no accessor of
  its own, normalizing it again gives it back, and \<^verbatim>\<open>has_permission\<close> decides on the
  normalized ACL as it does on the resource: this is what \<^verbatim>\<open>list_permissions\<close>
  relies on when it hands the normalized ACL to \<^verbatim>\<open>has_permission\<close>.
\<close>

theorem normalize_acl_idempotent:
  assumes "normalize_acl resource = Inr acl"
    and "is_like_list acl"
    and "\<not> py_hasattr acl ''__acl__''"
  shows "normalize_acl acl = Inr acl \<and>
         (\<forall>user p. has_permission user p acl = has_permission user p resource)"
proof -
  from assms(2,3) have "normalize_acl acl = Inr acl"
    by (simp add: normalize_acl_def py_getattr_absent)
  with assms(1) show ?thesis
    by (simp add: has_permission_def split: sum.splits)
qed

theorem normalize_acl_idempotent_witness:
  "normalize_acl article = Inr editor_acl \<and>
   normalize_acl editor_acl = Inr editor_acl \<and>
   has_permission editor_user (PStr ''edit'') editor_acl =
     has_permission editor_user (PStr ''edit'') article"
proof -
  have r: "normalize_acl article = Inr editor_acl"
    by (simp add: normalize_acl_def article_def editor_acl_def)
  have l: "is_like_list editor_acl" and h: "\<not> py_hasattr editor_acl ''__acl__''"
    by (simp_all add: is_like_list_def editor_acl_def)
  show ?thesis
    using normalize_acl_idempotent [OF r l h] r by simp
qed

subsection \<open>The sentinel and single names\<close>

text \<open>
  C5. Against the ACL \<^verbatim>\<open>[(Allow, Everyone, All)]\<close>, \<^verbatim>\<open>has_permission\<close> returns
  \<^verbatim>\<open>True\<close> for every requested permission and every user whose principals
  normalize, the anonymous ones among them: the sentinel contains every permission
  and \<^verbatim>\<open>Everyone\<close> is among the principals of every user.
\<close>

theorem allow_all_grants:
  assumes "normalize_principals user = Inr P"
    and "normalize_acl resource = Inr (PList [ALOW_ALL])"
  shows "has_permission user requested_permission resource = Inr True"
  using assms normalize_principals_Everyone [OF assms(1)]
  by (simp add: has_permission_def ALOW_ALL_def All_def unpack3_def set_contains_def
      Everyone_def)

theorem allow_all_grants_witness:
  "has_permission anonymous_user (PStr ''anything'') (PList [ALOW_ALL]) = Inr True \<and>
   has_permission admin_user (PStr ''delete'') (PObj 10 [(''__acl__'', PList [ALOW_ALL])])
     = Inr True"
proof -
  have 1: "normalize_acl (PList [ALOW_ALL]) = Inr (PList [ALOW_ALL])"
    by (simp add: normalize_acl_def is_like_list_def)
  have 2: "normalize_acl (PObj 10 [(''__acl__'', PList [ALOW_ALL])]) = Inr (PList [ALOW_ALL])"
    by (simp add: normalize_acl_def)
  show ?thesis
    using allow_all_grants [OF normalize_principals_anonymous 1]
      allow_all_grants [OF normalize_principals_admin 2] by simp
qed

text \<open>
  C9. An entry whose permissions field is the single string \<open>s\<close> matches the
  requested permission \<open>p\<close> exactly when \<open>p = s\<close>: for \<open>p = s\<close> the loop goes on to
  the principal test, and for every other \<open>p\<close>, a substring of \<open>s\<close> included, it
  moves to the next entry.
\<close>

theorem single_name_matches_exactly:
  "has_permission_loop P (PStr p) (PTuple [action, princ, PStr s] # rest) =
     (if p = s
      then (case set_contains P princ of
              Inl e \<Rightarrow> Inl e
            | Inr True \<Rightarrow> Inr (action = Allow)
            | Inr False \<Rightarrow> has_permission_loop P (PStr p) rest)
      else has_permission_loop P (PStr p) rest)"
  by (simp add: unpack3_def set_contains_def)

theorem single_name_matches_exactly_witness:
  "has_permission_loop {Everyone} (PStr ''vi'') [PTuple [Allow, Everyone, PStr ''view'']]
     = Inr False \<and>
   has_permission_loop {Everyone} (PStr ''view'') [PTuple [Allow, Everyone, PStr ''view'']]
     = Inr True \<and>
   py_in (PStr ''vi'') (PStr ''view'') = Inr True"
proof -
  have "sublist ''vi'' ''view''" by code_simp
  then show ?thesis
    using single_name_matches_exactly [of "{Everyone}" "''vi''" Allow Everyone "''view''" "[]"]
      single_name_matches_exactly [of "{Everyone}" "''view''" Allow Everyone "''view''" "[]"]
    by (simp add: set_contains_def Everyone_def)
qed

end
